theory Spec2Isabelle
  imports Main
begin

section \<open>The gdalwarp batch cell of the lesson notebook\<close>

text \<open>
  The only program logic of the repository is the code cell of
  \<^verbatim>\<open>Python-and-Gdal.ipynb\<close> that lists the band files of a Landsat scene and
  writes one \<^verbatim>\<open>gdalwarp\<close> command per file into a shell script:
  \<^verbatim>\<open>
  FileList = glob.glob(os.path.join(r'/home/geo/LandsatData','*band*.tif'))
  xmin, ymin, xmax,ymax = (0, 0, 0, 0) # INSERT HERE THE CORRECT COORDINATES
  command = ""
  for fp in FileList:
      inputfile = fp
      outputfile = inputfile[:-4] + "_clip.tif"
      command += "gdalwarp -te %s %s %s %s %s %s \n" % (xmin, ymin, xmax, ymax, inputfile, outputfile)
  cmd_file = "ClipTurkufromLandsat.sh"
  f = open(os.path.join(cmd_file), 'w')
  f.write(command)
  f.close()
  \<close>
  The cell is embedded as a function of the directory listing it observes and of the
  world it changes. Its literals (directory, pattern, extent, format string, script
  name) are parameters of \<open>generate\<close>; \<open>cell35\<close> is the cell with the literals of the
  notebook. What the Python library does for the cell (\<^verbatim>\<open>%\<close> formatting, slicing,
  \<^verbatim>\<open>glob\<close>, \<^verbatim>\<open>fnmatch\<close>, files) is modelled for the fragment the cell uses.
\<close>

subsection \<open>Python values, \<^verbatim>\<open>str\<close> and the \<^verbatim>\<open>%\<close> operator\<close>

text \<open>
  The values the cell formats are integers and strings. A \<open>char\<close> of the model stands for
  one character of a Python string, and the script is written on POSIX, where a line
  feed is written as a line feed. \<^verbatim>\<open>str\<close> of an integer is its decimal numeral; the
  bound that recent Python versions put on the number of digits is not modelled.
\<close>

datatype pyval = PInt int | PStr string

fun string_of_nat :: "nat \<Rightarrow> string" where
  "string_of_nat n =
     (if n < 10 then [''0123456789'' ! n]
      else string_of_nat (n div 10) @ [''0123456789'' ! (n mod 10)])"

declare string_of_nat.simps [simp del]

definition string_of_int :: "int \<Rightarrow> string" where
  "string_of_int i =
     (if i < 0 then CHR ''-'' # string_of_nat (nat (- i)) else string_of_nat (nat i))"

fun str :: "pyval \<Rightarrow> string" where
  "str (PInt i) = string_of_int i"
| "str (PStr s) = s"

text \<open>
  The exceptions of \<^verbatim>\<open>format % values\<close>, with \<open>values\<close> a tuple. Python reads the
  format from left to right and raises at the first problem: a conversion with no value
  left (\<^verbatim>\<open>TypeError: not enough arguments for format string\<close>), a \<^verbatim>\<open>%\<close> at the very
  end (\<^verbatim>\<open>ValueError: incomplete format\<close>), and, once the format is consumed, values
  left over (\<^verbatim>\<open>TypeError: not all arguments converted\<close>). Only the conversions
  \<^verbatim>\<open>%s\<close> and \<^verbatim>\<open>%%\<close> are modelled, the ones the notebook uses; any other character
  after \<^verbatim>\<open>%\<close> is reported as \<open>Unmodelled_conversion\<close>.
\<close>

datatype pyerror =
    TypeError_not_enough_arguments
  | TypeError_not_all_arguments_converted
  | ValueError_incomplete_format
  | Unmodelled_conversion char

fun pct_format :: "string \<Rightarrow> pyval list \<Rightarrow> pyerror + string" where
  "pct_format [] [] = Inr []"
| "pct_format [] (v # vs) = Inl TypeError_not_all_arguments_converted"
| "pct_format (c # cs) vs =
     (if c \<noteq> CHR ''%'' then
        (case pct_format cs vs of Inl e \<Rightarrow> Inl e | Inr r \<Rightarrow> Inr (c # r))
      else
        (case cs of
           [] \<Rightarrow> Inl ValueError_incomplete_format
         | d # ds \<Rightarrow>
             if d = CHR ''%'' then
               (case pct_format ds vs of Inl e \<Rightarrow> Inl e | Inr r \<Rightarrow> Inr (CHR ''%'' # r))
             else if d = CHR ''s'' then
               (case vs of
                  [] \<Rightarrow> Inl TypeError_not_enough_arguments
                | v # vs' \<Rightarrow>
                    (case pct_format ds vs' of Inl e \<Rightarrow> Inl e | Inr r \<Rightarrow> Inr (str v @ r)))
             else Inl (Unmodelled_conversion d)))"



subsection \<open>Slicing and the derived output path\<close>

text \<open>
  \<^verbatim>\<open>s[:k]\<close>: a negative \<open>k\<close> counts from the end, and a bound outside the string is
  clamped, so \<^verbatim>\<open>s[:-4]\<close> of a string of fewer than four characters is empty.
\<close>

definition py_slice_upto :: "string \<Rightarrow> int \<Rightarrow> string" where
  "py_slice_upto s k =
     (let n = int (length s);
          stop = (if k < 0 then max 0 (n + k) else min n k)
      in take (nat stop) s)"

definition deriveOutputPath :: "string \<Rightarrow> string" where
  "deriveOutputPath inputfile = py_slice_upto inputfile (- 4) @ ''_clip.tif''"

subsection \<open>Enumerating the input files\<close>

text \<open>
  \<^verbatim>\<open>fnmatch\<close> on POSIX (case-sensitive) for patterns built from ordinary characters,
  \<^verbatim>\<open>*\<close> (any run of characters, line feeds included) and \<^verbatim>\<open>?\<close> (any one character).
  Bracket expressions are not modelled; the pattern of the notebook has none.
\<close>

fun fnmatch :: "string \<Rightarrow> string \<Rightarrow> bool" where
  "fnmatch [] [] = True"
| "fnmatch (c # cs) [] = False"
| "fnmatch [] (p # ps) = (p = CHR ''*'' \<and> fnmatch [] ps)"
| "fnmatch (c # cs) (p # ps) =
     (if p = CHR ''*'' then fnmatch (c # cs) ps \<or> fnmatch cs (p # ps)
      else if p = CHR ''?'' then fnmatch cs ps
      else c = p \<and> fnmatch cs ps)"

definition ishidden :: "string \<Rightarrow> bool" where
  "ishidden path = (case path of [] \<Rightarrow> False | c # _ \<Rightarrow> c = CHR ''.'')"

text \<open>
  What \<^verbatim>\<open>os.scandir\<close> returns for a directory at the time of the call: the entry names
  in the order of the operating system, or nothing when the directory does not exist or
  cannot be read.
\<close>

type_synonym listing = "string \<Rightarrow> string list option"

text \<open>
  \<^verbatim>\<open>glob.glob1(dirname, pattern)\<close>: an unreadable or missing directory gives the empty
  list (the library catches the \<^verbatim>\<open>OSError\<close>), entries that start with a dot are
  dropped unless the pattern starts with a dot, and the rest is filtered by
  \<^verbatim>\<open>fnmatch\<close>, keeping the order of the listing.
\<close>

definition glob1 :: "listing \<Rightarrow> string \<Rightarrow> string \<Rightarrow> string list" where
  "glob1 listdir dirname pattern =
     (let names = (case listdir dirname of None \<Rightarrow> [] | Some ns \<Rightarrow> ns);
          names = (if \<not> ishidden pattern then filter (\<lambda>x. \<not> ishidden x) names else names)
      in filter (\<lambda>n. fnmatch n pattern) names)"

definition os_path_join :: "string \<Rightarrow> string \<Rightarrow> string" where
  "os_path_join a b =
     (if b \<noteq> [] \<and> hd b = CHR ''/'' then b
      else if a = [] \<or> last a = CHR ''/'' then a @ b
      else a @ ''/'' @ b)"

text \<open>
  \<^verbatim>\<open>glob.glob(os.path.join(dirname, pattern))\<close> for a directory name without wildcard
  characters and a pattern with a wildcard and without \<^verbatim>\<open>/\<close>, as in the notebook: the
  matching entries of the one directory, each joined to the directory name.
\<close>

definition glob_glob :: "listing \<Rightarrow> string \<Rightarrow> string \<Rightarrow> string list" where
  "glob_glob listdir dirname pattern =
     map (os_path_join dirname) (glob1 listdir dirname pattern)"

subsection \<open>The world the notebook acts on\<close>

text \<open>
  The contents of the files by path, the commands handed to \<^verbatim>\<open>os.system\<close> (the
  \<^verbatim>\<open>gdal_merge.py\<close> cell of the notebook runs one), and the links fetched with
  \<^verbatim>\<open>urllib.request.urlretrieve\<close> (the exercise hints download tiles with it).
  Opening a file for writing is taken to succeed, and a write to arrive whole.
\<close>

record world =
  files :: "string \<rightharpoonup> string"
  executed :: "string list"
  fetched :: "string list"

record pyfile =
  fname :: string
  buffer :: string

definition py_open_w :: "string \<Rightarrow> world \<Rightarrow> pyfile \<times> world" where
  "py_open_w path w = (\<lparr>fname = path, buffer = []\<rparr>, w\<lparr>files := (files w)(path \<mapsto> [])\<rparr>)"

definition py_write :: "pyfile \<Rightarrow> string \<Rightarrow> pyfile" where
  "py_write f s = f\<lparr>buffer := buffer f @ s\<rparr>"

definition py_close :: "pyfile \<Rightarrow> world \<Rightarrow> world" where
  "py_close f w = w\<lparr>files := (files w)(fname f \<mapsto> buffer f)\<rparr>"

definition os_system :: "string \<Rightarrow> world \<Rightarrow> world" where
  "os_system cmd w = w\<lparr>executed := executed w @ [cmd]\<rparr>"

definition urlretrieve :: "string \<Rightarrow> string \<Rightarrow> string \<Rightarrow> world \<Rightarrow> world" where
  "urlretrieve url filename body w =
     w\<lparr>files := (files w)(filename \<mapsto> body), fetched := fetched w @ [url]\<rparr>"

subsection \<open>The cell\<close>

type_synonym extent = "pyval \<times> pyval \<times> pyval \<times> pyval"

text \<open>One pass of the loop body: the command line for the file \<open>fp\<close>.\<close>

definition renderCommand :: "string \<Rightarrow> extent \<Rightarrow> string \<Rightarrow> pyerror + string" where
  "renderCommand template ext fp =
     (case ext of (xmin, ymin, xmax, ymax) \<Rightarrow>
        let inputfile = fp;
            outputfile = deriveOutputPath inputfile
        in pct_format template [xmin, ymin, xmax, ymax, PStr inputfile, PStr outputfile])"

text \<open>
  The \<^verbatim>\<open>for\<close> loop with its accumulator \<open>command\<close>; an exception of the formatting
  leaves the loop at once.
\<close>

fun command_loop :: "string \<Rightarrow> extent \<Rightarrow> string list \<Rightarrow> string \<Rightarrow> pyerror + string" where
  "command_loop template ext [] command = Inr command"
| "command_loop template ext (fp # FileList) command =
     (case renderCommand template ext fp of
        Inl e \<Rightarrow> Inl e
      | Inr line \<Rightarrow> command_loop template ext FileList (command @ line))"

definition writeScript :: "string \<Rightarrow> string \<Rightarrow> world \<Rightarrow> world" where
  "writeScript cmd_file command w =
     (case py_open_w cmd_file w of (f, w1) \<Rightarrow>
        let f = py_write f command in py_close f w1)"

definition generate ::
  "listing \<Rightarrow> string \<Rightarrow> string \<Rightarrow> extent \<Rightarrow> string \<Rightarrow> string \<Rightarrow> world
     \<Rightarrow> (pyerror + unit) \<times> world" where
  "generate listdir directory pattern ext template cmd_file w =
     (let FileList = glob_glob listdir directory pattern in
      case command_loop template ext FileList [] of
        Inl e \<Rightarrow> (Inl e, w)
      | Inr command \<Rightarrow> (Inr (), writeScript cmd_file command w))"

definition gdalwarp_template :: string where
  "gdalwarp_template = ''gdalwarp -te %s %s %s %s %s %s \<newline>''"

definition cell35 :: "listing \<Rightarrow> world \<Rightarrow> (pyerror + unit) \<times> world" where
  "cell35 listdir w =
     generate listdir ''/home/geo/LandsatData'' ''*band*.tif''
       (PInt 0, PInt 0, PInt 0, PInt 0) gdalwarp_template ''ClipTurkufromLandsat.sh'' w"

text \<open>
  The later cell that stacks three clipped bands does run its command:
  \<^verbatim>\<open>
  inputfiles =  "band3_clip.tif band4_clip.tif band5_clip.tif"
  outputfile =  "Landsat8_GreenRedNir.tif"
  command = "gdal_merge.py -separate %s -o %s" % (inputfiles, outputfile)
  os.system(command)
  \<close>
\<close>

definition cell40 :: "world \<Rightarrow> (pyerror + unit) \<times> world" where
  "cell40 w =
     (let inputfiles = ''band3_clip.tif band4_clip.tif band5_clip.tif'';
          outputfile = ''Landsat8_GreenRedNir.tif''
      in case pct_format ''gdal_merge.py -separate %s -o %s'' [PStr inputfiles, PStr outputfile] of
           Inl e \<Rightarrow> (Inl e, w)
         | Inr command \<Rightarrow> (Inr (), os_system command w))"

subsection \<open>Notions of the specification\<close>

text \<open>
  \<^verbatim>\<open>os.path.basename\<close>: what follows the last \<^verbatim>\<open>/\<close> of a path.
\<close>

definition basename :: "string \<Rightarrow> string" where
  "basename p = rev (takeWhile (\<lambda>c. c \<noteq> CHR ''/'') (rev p))"

text \<open>
  Reading a script back line by line, as \<^verbatim>\<open>readlines\<close> does on a file opened with
  \<^verbatim>\<open>newline='\n'\<close>: a line ends after each line feed and keeps it, no other character
  ends a line, and a last line without line feed is a line too. The notebook has no
  reader of its own; the script is meant for \<^verbatim>\<open>bash\<close>.
\<close>

fun readlines_from :: "string \<Rightarrow> string \<Rightarrow> string list" where
  "readlines_from cur [] = (if cur = [] then [] else [cur])"
| "readlines_from cur (c # cs) =
     (if c = CHR 0x0A then (cur @ [c]) # readlines_from [] cs
      else readlines_from (cur @ [c]) cs)"

definition readlines :: "string \<Rightarrow> string list" where
  "readlines s = readlines_from [] s"

text \<open>An entry name that \<^verbatim>\<open>glob\<close> lets the pattern match.\<close>

definition glob_matches :: "string \<Rightarrow> string \<Rightarrow> bool" where
  "glob_matches pattern name =
     (fnmatch name pattern \<and> (ishidden pattern \<or> \<not> ishidden name))"

text \<open>
  The ordered sequence of command lines of a batch: one rendering per file, the first
  failure ending it. The cell never holds this list; its accumulator holds the
  concatenation (\<open>command_loop_render_all\<close> below).
\<close>

fun render_all :: "string \<Rightarrow> extent \<Rightarrow> string list \<Rightarrow> pyerror + string list" where
  "render_all template ext [] = Inr []"
| "render_all template ext (fp # FileList) =
     (case renderCommand template ext fp of
        Inl e \<Rightarrow> Inl e
      | Inr line \<Rightarrow>
          (case render_all template ext FileList of
             Inl e \<Rightarrow> Inl e
           | Inr lines \<Rightarrow> Inr (line # lines)))"

subsection \<open>Example inputs\<close>

definition empty_world :: world where
  "empty_world = \<lparr>files = Map.empty, executed = [], fetched = []\<rparr>"

definition no_directory :: listing where
  "no_directory = Map.empty"

definition three_bands :: listing where
  "three_bands = [''/home/geo/LandsatData'' \<mapsto> [''band3.tif'', ''band4.tif'', ''band5.tif'']]"

definition mixed_directory :: listing where
  "mixed_directory =
     [''/home/geo/LandsatData'' \<mapsto> [''readme.txt'', ''LC8_band4.tif'', ''.LC8_band5.tif'', ''LC8_band3.tif'']]"

definition no_match_directory :: listing where
  "no_match_directory = [''/home/geo/LandsatData'' \<mapsto> [''readme.txt'', ''scene.xml'']]"

definition line_feed_band :: listing where
  "line_feed_band = [''/home/geo/LandsatData'' \<mapsto> [''LC8_band\<newline>3.tif'']]"


definition hidden_and_line_feed :: listing where
  "hidden_and_line_feed =
     [''/home/geo/LandsatData'' \<mapsto> [''.LC8_band5.tif'', ''LC8_band\<newline>3.tif'']]"


section \<open>Properties\<close>

subsection \<open>Pattern matching\<close>

lemma fnmatch_literal:
  "\<forall>c\<in>set lit. c \<noteq> CHR ''*'' \<and> c \<noteq> CHR ''?'' \<Longrightarrow> fnmatch n lit \<Longrightarrow> n = lit"
proof (induction n lit rule: fnmatch.induct)
  case 1
  then show ?case by simp
next
  case (2 c cs)
  then show ?case by simp
next
  case (3 p ps)
  then show ?case by simp
next
  case (4 c cs p ps)
  from "4.prems" have np: "p \<noteq> CHR ''*''" "p \<noteq> CHR ''?''" and rest: "\<forall>c\<in>set ps. c \<noteq> CHR ''*'' \<and> c \<noteq> CHR ''?''"
    by simp_all
  with "4.prems"(2) have "c = p" "fnmatch cs ps" by simp_all
  with "4.IH"(4)[OF np rest] show ?case by simp
qed

lemma fnmatch_literal_suffix_aux:
  "fnmatch n pat \<Longrightarrow> \<forall>c\<in>set lit. c \<noteq> CHR ''*'' \<and> c \<noteq> CHR ''?'' \<Longrightarrow> pat = ps @ lit \<Longrightarrow> \<exists>x. n = x @ lit"
proof (induction n pat arbitrary: ps rule: fnmatch.induct)
  case 1
  then show ?case by simp
next
  case (2 c cs)
  then show ?case by simp
next
  case (3 p ps')
  show ?case
  proof (cases ps)
    case Nil
    with "3.prems" have "fnmatch [] lit" by simp
    with "3.prems"(2) have "[] = lit" by (rule fnmatch_literal)
    then show ?thesis by simp
  next
    case (Cons a ps'')
    with "3.prems" have "ps' = ps'' @ lit" "fnmatch [] ps'" by simp_all
    with "3.IH" "3.prems"(2) show ?thesis by blast
  qed
next
  case (4 c cs p ps')
  note lit = "4.prems"(2)
  show ?case
  proof (cases ps)
    case Nil
    with "4.prems" have "fnmatch (c # cs) lit" by simp
    with lit have "c # cs = lit" by (rule fnmatch_literal)
    then show ?thesis by simp
  next
    case (Cons a ps'')
    with "4.prems"(3) have eq: "ps' = ps'' @ lit" by simp
    show ?thesis
    proof (cases "p = CHR ''*''")
      case True
      with "4.prems"(1) have "fnmatch (c # cs) ps' \<or> fnmatch cs (p # ps')" by simp
      then show ?thesis
      proof
        assume "fnmatch (c # cs) ps'"
        from "4.IH"(1)[OF True this lit eq] show ?thesis .
      next
        assume "fnmatch cs (p # ps')"
        from "4.IH"(2)[OF True this lit "4.prems"(3)] obtain x where "cs = x @ lit" by blast
        then have "c # cs = (c # x) @ lit" by simp
        then show ?thesis by blast
      qed
    next
      case False
      note notstar = this
      show ?thesis
      proof (cases "p = CHR ''?''")
        case True
        with notstar "4.prems"(1) have "fnmatch cs ps'" by simp
        from "4.IH"(3)[OF notstar True this lit eq] obtain x where "cs = x @ lit" by blast
        then have "c # cs = (c # x) @ lit" by simp
        then show ?thesis by blast
      next
        case False
        with notstar "4.prems"(1) have "fnmatch cs ps'" by simp
        from "4.IH"(4)[OF notstar False this lit eq] obtain x where "cs = x @ lit" by blast
        then have "c # cs = (c # x) @ lit" by simp
        then show ?thesis by blast
      qed
    qed
  qed
qed


lemma fnmatch_band_tif: "fnmatch n ''*band*.tif'' \<Longrightarrow> \<exists>x. n = x @ ''.tif''"
proof -
  assume m: "fnmatch n ''*band*.tif''"
  have lit: "\<forall>c\<in>set ''.tif''. c \<noteq> CHR ''*'' \<and> c \<noteq> CHR ''?''" by simp
  have eq: "''*band*.tif'' = ''*band*'' @ ''.tif''" by simp
  from m lit eq show ?thesis by (rule fnmatch_literal_suffix_aux)
qed

text \<open>What the pattern of the notebook matches, said without the matcher.\<close>

lemma fnmatch_empty_pattern: "fnmatch n [] \<longleftrightarrow> n = []"
  by (cases n) simp_all

lemma fnmatch_star:
  "fnmatch n (CHR ''*'' # ps) \<longleftrightarrow> (\<exists>a b. n = a @ b \<and> fnmatch b ps)"
proof (induction n)
  case Nil
  then show ?case by simp
next
  case (Cons c cs)
  show ?case
  proof
    assume "fnmatch (c # cs) (CHR ''*'' # ps)"
    then have "fnmatch (c # cs) ps \<or> fnmatch cs (CHR ''*'' # ps)" by simp
    then show "\<exists>a b. c # cs = a @ b \<and> fnmatch b ps"
    proof
      assume "fnmatch (c # cs) ps"
      then have "c # cs = [] @ (c # cs) \<and> fnmatch (c # cs) ps" by simp
      then show ?thesis by blast
    next
      assume "fnmatch cs (CHR ''*'' # ps)"
      with Cons.IH obtain a b where "cs = a @ b" "fnmatch b ps" by blast
      then have "c # cs = (c # a) @ b \<and> fnmatch b ps" by simp
      then show ?thesis by blast
    qed
  next
    assume "\<exists>a b. c # cs = a @ b \<and> fnmatch b ps"
    then obtain a b where ab: "c # cs = a @ b" and m: "fnmatch b ps" by blast
    show "fnmatch (c # cs) (CHR ''*'' # ps)"
    proof (cases a)
      case Nil
      with ab have "b = c # cs" by simp
      with m have "fnmatch (c # cs) ps" by simp
      then show ?thesis by simp
    next
      case (Cons x a')
      with ab have "cs = a' @ b" by simp
      with m Cons.IH have "fnmatch cs (CHR ''*'' # ps)" by blast
      then show ?thesis by simp
    qed
  qed
qed

lemma fnmatch_char:
  "p \<noteq> CHR ''*'' \<Longrightarrow> p \<noteq> CHR ''?'' \<Longrightarrow>
   fnmatch n (p # ps) \<longleftrightarrow> (\<exists>m. n = p # m \<and> fnmatch m ps)"
  by (cases n) auto

lemma fnmatch_dot_tif: "fnmatch d ''.tif'' \<longleftrightarrow> d = ''.tif''"
  by (auto simp: fnmatch_char fnmatch_empty_pattern)

lemma fnmatch_band_rest:
  "fnmatch b ''band*.tif'' \<longleftrightarrow> (\<exists>c. b = ''band'' @ c @ ''.tif'')"
proof -
  have "fnmatch b ''band*.tif'' \<longleftrightarrow> (\<exists>m. b = ''band'' @ m \<and> fnmatch m ''*.tif'')"
    by (auto simp: fnmatch_char)
  also have "\<dots> \<longleftrightarrow> (\<exists>m. b = ''band'' @ m \<and> (\<exists>c d. m = c @ d \<and> d = ''.tif''))"
    by (simp only: fnmatch_star fnmatch_dot_tif)
  also have "\<dots> \<longleftrightarrow> (\<exists>c. b = ''band'' @ c @ ''.tif'')"
    by blast
  finally show ?thesis .
qed

lemma fnmatch_band_tif_iff:
  "fnmatch n ''*band*.tif'' \<longleftrightarrow> (\<exists>a c. n = a @ ''band'' @ c @ ''.tif'')"
proof -
  have "fnmatch n ''*band*.tif'' \<longleftrightarrow> (\<exists>a b. n = a @ b \<and> fnmatch b ''band*.tif'')"
    by (rule fnmatch_star)
  also have "\<dots> \<longleftrightarrow> (\<exists>a b. n = a @ b \<and> (\<exists>c. b = ''band'' @ c @ ''.tif''))"
    by (simp only: fnmatch_band_rest)
  also have "\<dots> \<longleftrightarrow> (\<exists>a c. n = a @ ''band'' @ c @ ''.tif'')"
    by blast
  finally show ?thesis .
qed

subsection \<open>The loop and the script\<close>

lemma command_loop_render_all:
  "command_loop template ext FileList command =
     (case render_all template ext FileList of
        Inl e \<Rightarrow> Inl e
      | Inr lines \<Rightarrow> Inr (command @ concat lines))"
  by (induction FileList arbitrary: command) (auto split: sum.splits)

lemma writeScript_files:
  "writeScript cmd_file command w = w\<lparr>files := (files w)(cmd_file \<mapsto> command)\<rparr>"
  by (simp add: writeScript_def py_open_w_def py_write_def py_close_def)

lemma generate_render_all:
  "generate listdir directory pattern ext template cmd_file w =
     (case render_all template ext (glob_glob listdir directory pattern) of
        Inl e \<Rightarrow> (Inl e, w)
      | Inr lines \<Rightarrow> (Inr (), w\<lparr>files := (files w)(cmd_file \<mapsto> concat lines)\<rparr>))"
  by (simp add: generate_def Let_def command_loop_render_all writeScript_files split: sum.splits)

lemma renderCommand_gdalwarp:
  "renderCommand gdalwarp_template (xmin, ymin, xmax, ymax) fp =
     Inr (''gdalwarp -te '' @ str xmin @ '' '' @ str ymin @ '' '' @ str xmax @ '' '' @ str ymax
          @ '' '' @ fp @ '' '' @ deriveOutputPath fp @ '' \<newline>'')"
  by (simp add: renderCommand_def gdalwarp_template_def Let_def)

subsection \<open>Formatting\<close>



lemma readlines_from_line:
  "CHR 0x0A \<notin> set body \<Longrightarrow>
   readlines_from cur (body @ CHR 0x0A # rest) = (cur @ body @ [CHR 0x0A]) # readlines_from [] rest"
  by (induction body arbitrary: cur) auto

lemma readlines_concat:
  "\<forall>l\<in>set lines. \<exists>body. l = body @ [CHR 0x0A] \<and> CHR 0x0A \<notin> set body \<Longrightarrow>
   readlines (concat lines) = lines"
proof (induction lines)
  case Nil
  then show ?case by (simp add: readlines_def)
next
  case (Cons l lines)
  then obtain body where l: "l = body @ [CHR 0x0A]" and nb: "CHR 0x0A \<notin> set body" by auto
  from Cons have "readlines (concat lines) = lines" by simp
  with readlines_from_line[OF nb, of "[]" "concat lines"] l show ?case
    by (simp add: readlines_def)
qed


subsection \<open>The derived output path\<close>

lemma py_slice_upto_minus4: "py_slice_upto s (- 4) = take (length s - 4) s"
  by (simp add: py_slice_upto_def Let_def max_def nat_diff_distrib')

lemma deriveOutputPath_take:
  "deriveOutputPath p = take (length p - 4) p @ ''_clip.tif''"
  by (simp add: deriveOutputPath_def py_slice_upto_minus4)

lemma set_deriveOutputPath: "CHR 0x0A \<notin> set fp \<Longrightarrow> CHR 0x0A \<notin> set (deriveOutputPath fp)"
  by (auto simp: deriveOutputPath_take dest: in_set_takeD)

subsection \<open>Enumeration\<close>

lemma glob1_filter:
  "listdir directory = Some names \<Longrightarrow>
   glob1 listdir directory pattern = filter (glob_matches pattern) names"
  by (cases "ishidden pattern") (auto simp: glob1_def glob_matches_def Let_def intro: filter_cong)

lemma glob1_missing: "listdir directory = None \<Longrightarrow> glob1 listdir directory pattern = []"
  by (simp add: glob1_def)

lemma os_path_join_suffix: "\<exists>x. os_path_join a (n @ s) = x @ s"
proof -
  have "os_path_join a (n @ s) = n @ s \<or> os_path_join a (n @ s) = (a @ n) @ s
        \<or> os_path_join a (n @ s) = (a @ ''/'' @ n) @ s"
    by (simp add: os_path_join_def)
  then show ?thesis by blast
qed

lemma glob_glob_band_tif:
  assumes "p \<in> set (glob_glob listdir directory ''*band*.tif'')"
  shows "\<exists>x. p = x @ ''.tif''"
proof -
  from assms obtain n where n: "n \<in> set (glob1 listdir directory ''*band*.tif'')"
    and p: "p = os_path_join directory n"
    by (auto simp: glob_glob_def)
  from n have "fnmatch n ''*band*.tif''"
    by (auto simp: glob1_def Let_def split: option.splits if_splits)
  then obtain y where "n = y @ ''.tif''" using fnmatch_band_tif by blast
  with p os_path_join_suffix [of directory y "''.tif''"] show ?thesis by simp
qed

lemma glob_three_bands:
  "glob_glob three_bands ''/home/geo/LandsatData'' ''*band*.tif'' =
     [''/home/geo/LandsatData/band3.tif'', ''/home/geo/LandsatData/band4.tif'',
      ''/home/geo/LandsatData/band5.tif'']"
  by (simp add: glob_glob_def glob1_def three_bands_def ishidden_def os_path_join_def)

lemma glob_no_directory: "glob_glob no_directory d p = []"
  by (simp add: glob_glob_def glob1_def no_directory_def)

lemma glob_no_match:
  "glob_glob no_match_directory ''/home/geo/LandsatData'' ''*band*.tif'' = []"
  by (simp add: glob_glob_def glob1_def no_match_directory_def ishidden_def)

lemma glob_mixed:
  "glob_glob mixed_directory ''/home/geo/LandsatData'' ''*band*.tif'' =
     [''/home/geo/LandsatData/LC8_band4.tif'', ''/home/geo/LandsatData/LC8_band3.tif'']"
  by (simp add: glob_glob_def glob1_def mixed_directory_def ishidden_def os_path_join_def)

lemma glob_line_feed:
  "glob_glob line_feed_band ''/home/geo/LandsatData'' ''*band*.tif'' =
     [''/home/geo/LandsatData/LC8_band\<newline>3.tif'']"
  by (simp add: glob_glob_def glob1_def line_feed_band_def ishidden_def os_path_join_def)

lemma render_all_gdalwarp:
  "render_all gdalwarp_template (xmin, ymin, xmax, ymax) FileList =
     Inr (map (\<lambda>fp. ''gdalwarp -te '' @ str xmin @ '' '' @ str ymin @ '' '' @ str xmax @ '' ''
                 @ str ymax @ '' '' @ fp @ '' '' @ deriveOutputPath fp @ '' \<newline>'') FileList)"
  by (induction FileList) (simp_all add: renderCommand_gdalwarp)

lemma cell40_executes:
  "cell40 w = (Inr (), w\<lparr>executed := executed w @
     [''gdal_merge.py -separate band3_clip.tif band4_clip.tif band5_clip.tif -o Landsat8_GreenRedNir.tif'']\<rparr>)"
  by (simp add: cell40_def os_system_def)

lemma same_ending_injective:
  assumes "deriveOutputPath p = deriveOutputPath q"
    and "drop (length p - 4) p = drop (length q - 4) q"
  shows "p = q"
proof -
  from assms(1) have "take (length p - 4) p = take (length q - 4) q"
    by (simp add: deriveOutputPath_take)
  with assms(2)
  have "take (length p - 4) p @ drop (length p - 4) p = take (length q - 4) q @ drop (length q - 4) q"
    by simp
  then show ?thesis by simp
qed



lemma glob_hidden_and_line_feed:
  "glob_glob hidden_and_line_feed ''/home/geo/LandsatData'' ''*band*.tif'' =
     [''/home/geo/LandsatData/LC8_band\<newline>3.tif'']"
  by (simp add: glob_glob_def glob1_def hidden_and_line_feed_def ishidden_def os_path_join_def)

lemma glob_glob_band_tif_filter:
  "listdir directory = Some names \<Longrightarrow>
   glob_glob listdir directory ''*band*.tif'' =
     map (os_path_join directory)
       (filter (\<lambda>n. \<not> ishidden n \<and> (\<exists>a c. n = a @ ''band'' @ c @ ''.tif'')) names)"
proof -
  assume l: "listdir directory = Some names"
  have nh: "\<not> ishidden ''*band*.tif''" by (simp add: ishidden_def)
  have "filter (\<lambda>n. fnmatch n ''*band*.tif'') (filter (\<lambda>x. \<not> ishidden x) names)
        = filter (\<lambda>n. \<not> ishidden n \<and> (\<exists>a c. n = a @ ''band'' @ c @ ''.tif'')) names"
    by (simp only: filter_filter fnmatch_band_tif_iff conj_commute)
  with l nh show ?thesis
    by (simp add: glob_glob_def glob1_def Let_def)
qed

lemma readlines_gdalwarp:
  assumes "\<forall>fp\<in>set FileList. CHR 0x0A \<notin> set fp"
    and "CHR 0x0A \<notin> set (str xmin)" and "CHR 0x0A \<notin> set (str ymin)"
    and "CHR 0x0A \<notin> set (str xmax)" and "CHR 0x0A \<notin> set (str ymax)"
  shows "readlines (concat (map (\<lambda>fp. ''gdalwarp -te '' @ str xmin @ '' '' @ str ymin @ '' ''
            @ str xmax @ '' '' @ str ymax @ '' '' @ fp @ '' '' @ deriveOutputPath fp @ '' \<newline>'')
          FileList))
       = map (\<lambda>fp. ''gdalwarp -te '' @ str xmin @ '' '' @ str ymin @ '' ''
            @ str xmax @ '' '' @ str ymax @ '' '' @ fp @ '' '' @ deriveOutputPath fp @ '' \<newline>'')
          FileList"
proof (rule readlines_concat, rule ballI)
  fix l
  assume "l \<in> set (map (\<lambda>fp. ''gdalwarp -te '' @ str xmin @ '' '' @ str ymin @ '' ''
            @ str xmax @ '' '' @ str ymax @ '' '' @ fp @ '' '' @ deriveOutputPath fp @ '' \<newline>'')
          FileList)"
  then obtain fp where fp: "fp \<in> set FileList"
    and l: "l = ''gdalwarp -te '' @ str xmin @ '' '' @ str ymin @ '' ''
            @ str xmax @ '' '' @ str ymax @ '' '' @ fp @ '' '' @ deriveOutputPath fp @ '' \<newline>''"
    by auto
  from fp assms(1) have nf: "CHR 0x0A \<notin> set fp" by blast
  then have nd: "CHR 0x0A \<notin> set (deriveOutputPath fp)" by (rule set_deriveOutputPath)
  let ?body = "''gdalwarp -te '' @ str xmin @ '' '' @ str ymin @ '' '' @ str xmax @ '' ''
                 @ str ymax @ '' '' @ fp @ '' '' @ deriveOutputPath fp @ '' ''"
  from l have "l = ?body @ [CHR 0x0A]" by simp
  moreover from nf nd assms(2-5) have "CHR 0x0A \<notin> set ?body" by simp
  ultimately show "\<exists>body. l = body @ [CHR 0x0A] \<and> CHR 0x0A \<notin> set body" by blast
qed

subsection \<open>C1: the three-band scenario\<close>

text \<open>
  C1. When the enumerated input files are \<^verbatim>\<open>band3.tif\<close>, \<^verbatim>\<open>band4.tif\<close> and
  \<^verbatim>\<open>band5.tif\<close> of one directory (\<open>d\<close> is the directory prefix of the paths), the
  script holds one \<^verbatim>\<open>gdalwarp\<close> command per file, in the order of the enumeration,
  with the path of the file as input and \<^verbatim>\<open>band3_clip.tif\<close>, \<^verbatim>\<open>band4_clip.tif\<close>,
  \<^verbatim>\<open>band5_clip.tif\<close> in the same directory as output.
\<close>

theorem three_bands_commands:
  "glob_glob listdir directory pattern = [d @ ''band3.tif'', d @ ''band4.tif'', d @ ''band5.tif''] \<Longrightarrow>
   generate listdir directory pattern (PInt 0, PInt 0, PInt 0, PInt 0) gdalwarp_template cmd_file w =
     (Inr (), w\<lparr>files := (files w)(cmd_file \<mapsto>
        ''gdalwarp -te 0 0 0 0 '' @ d @ ''band3.tif '' @ d @ ''band3_clip.tif \<newline>''
        @ ''gdalwarp -te 0 0 0 0 '' @ d @ ''band4.tif '' @ d @ ''band4_clip.tif \<newline>''
        @ ''gdalwarp -te 0 0 0 0 '' @ d @ ''band5.tif '' @ d @ ''band5_clip.tif \<newline>'')\<rparr>)"
  by (simp add: generate_render_all renderCommand_gdalwarp deriveOutputPath_take
      string_of_int_def string_of_nat.simps)

theorem three_bands_commands_witness:
  "glob_glob three_bands ''/home/geo/LandsatData'' ''*band*.tif'' =
     [''/home/geo/LandsatData/'' @ ''band3.tif'', ''/home/geo/LandsatData/'' @ ''band4.tif'',
      ''/home/geo/LandsatData/'' @ ''band5.tif'']
   \<and> cell35 three_bands empty_world =
     (Inr (), empty_world\<lparr>files := (files empty_world)(''ClipTurkufromLandsat.sh'' \<mapsto>
        ''gdalwarp -te 0 0 0 0 /home/geo/LandsatData/band3.tif /home/geo/LandsatData/band3_clip.tif \<newline>gdalwarp -te 0 0 0 0 /home/geo/LandsatData/band4.tif /home/geo/LandsatData/band4_clip.tif \<newline>gdalwarp -te 0 0 0 0 /home/geo/LandsatData/band5.tif /home/geo/LandsatData/band5_clip.tif \<newline>'')\<rparr>)"
  using three_bands_commands [of three_bands "''/home/geo/LandsatData''" "''*band*.tif''" "''/home/geo/LandsatData/''"
              "''ClipTurkufromLandsat.sh''" empty_world]
  by (simp add: glob_three_bands cell35_def)

subsection \<open>C2: what a run writes, and when\<close>




subsection \<open>C3: no collision within a batch\<close>

text \<open>
  C3. Within one batch of the cell, the paths enumerated by \<^verbatim>\<open>*band*.tif\<close> in one
  directory, \<open>deriveOutputPath\<close> is injective: two distinct paths, and so two paths with
  distinct base names, derive distinct output paths. All paths of a batch end in
  \<^verbatim>\<open>.tif\<close>, so cutting the last four characters loses nothing that tells them apart.
\<close>

theorem deriveOutputPath_injective_on_batch:
  "(p \<in> set (glob_glob listdir directory ''*band*.tif'')
      \<and> q \<in> set (glob_glob listdir directory ''*band*.tif'') \<and> p \<noteq> q
      \<longrightarrow> deriveOutputPath p \<noteq> deriveOutputPath q)
   \<and> (p \<in> set (glob_glob listdir directory ''*band*.tif'')
      \<and> q \<in> set (glob_glob listdir directory ''*band*.tif'') \<and> basename p \<noteq> basename q
      \<longrightarrow> deriveOutputPath p \<noteq> deriveOutputPath q)"
proof -
  have main: "deriveOutputPath p \<noteq> deriveOutputPath q"
    if "p \<in> set (glob_glob listdir directory ''*band*.tif'')"
      and "q \<in> set (glob_glob listdir directory ''*band*.tif'')" and "p \<noteq> q"
  proof -
    from that(1,2) obtain x y where "p = x @ ''.tif''" "q = y @ ''.tif''"
      using glob_glob_band_tif by blast
    then have "drop (length p - 4) p = drop (length q - 4) q" by simp
    with that(3) show ?thesis using same_ending_injective by blast
  qed
  show ?thesis
  proof (intro conjI impI)
    assume "p \<in> set (glob_glob listdir directory ''*band*.tif'')
      \<and> q \<in> set (glob_glob listdir directory ''*band*.tif'') \<and> p \<noteq> q"
    then show "deriveOutputPath p \<noteq> deriveOutputPath q" using main by blast
  next
    assume a: "p \<in> set (glob_glob listdir directory ''*band*.tif'')
      \<and> q \<in> set (glob_glob listdir directory ''*band*.tif'') \<and> basename p \<noteq> basename q"
    then have "p \<noteq> q" by auto
    with a show "deriveOutputPath p \<noteq> deriveOutputPath q" using main by blast
  qed
qed

theorem deriveOutputPath_injective_on_batch_witness:
  "''/home/geo/LandsatData/band3.tif'' \<in> set (glob_glob three_bands ''/home/geo/LandsatData'' ''*band*.tif'')
   \<and> ''/home/geo/LandsatData/band4.tif'' \<in> set (glob_glob three_bands ''/home/geo/LandsatData'' ''*band*.tif'')
   \<and> ''/home/geo/LandsatData/band3.tif'' \<noteq> ''/home/geo/LandsatData/band4.tif''
   \<and> basename ''/home/geo/LandsatData/band3.tif'' \<noteq> basename ''/home/geo/LandsatData/band4.tif''
   \<and> deriveOutputPath ''/home/geo/LandsatData/band3.tif'' \<noteq> deriveOutputPath ''/home/geo/LandsatData/band4.tif''"
  using deriveOutputPath_injective_on_batch [of "''/home/geo/LandsatData/band3.tif''" three_bands "''/home/geo/LandsatData''"
              "''/home/geo/LandsatData/band4.tif''"]
  by (simp add: glob_three_bands basename_def)

subsection \<open>C4: a missing directory\<close>

text \<open>
  C4, as stated, fails: for a directory that does not exist the enumeration is the empty
  list, not a failure, and the cell goes on to write an empty script.
\<close>

theorem missing_directory_is_no_error:
  "no_directory ''/home/geo/LandsatData'' = None
   \<and> glob_glob no_directory ''/home/geo/LandsatData'' ''*band*.tif'' = []
   \<and> cell35 no_directory empty_world =
       (Inr (), empty_world\<lparr>files := (files empty_world)(''ClipTurkufromLandsat.sh'' \<mapsto> [])\<rparr>)"
  by (simp add: glob_no_directory cell35_def generate_render_all) (simp add: no_directory_def)

text \<open>
  C4, amended. The enumeration returns the empty sequence both when the directory does
  not exist and when it exists but no entry name matches the pattern; it never fails.
\<close>

theorem enumeration_never_fails:
  "listdir directory = None
   \<or> (\<exists>names. listdir directory = Some names \<and> (\<forall>n\<in>set names. \<not> glob_matches pattern n))
   \<Longrightarrow> glob_glob listdir directory pattern = []"
  by (auto simp: glob_glob_def glob1_missing glob1_filter)

theorem enumeration_never_fails_witness:
  "no_directory ''/home/geo/LandsatData'' = None
   \<and> glob_glob no_directory ''/home/geo/LandsatData'' ''*band*.tif'' = []
   \<and> no_match_directory ''/home/geo/LandsatData'' = Some [''readme.txt'', ''scene.xml'']
   \<and> \<not> glob_matches ''*band*.tif'' ''readme.txt''
   \<and> \<not> glob_matches ''*band*.tif'' ''scene.xml''
   \<and> glob_glob no_match_directory ''/home/geo/LandsatData'' ''*band*.tif'' = []"
proof -
  have a: "no_directory ''/home/geo/LandsatData'' = None" by (simp add: no_directory_def)
  have b: "no_match_directory ''/home/geo/LandsatData'' = Some [''readme.txt'', ''scene.xml'']"
    by (simp add: no_match_directory_def)
  have c: "\<not> glob_matches ''*band*.tif'' ''readme.txt''" "\<not> glob_matches ''*band*.tif'' ''scene.xml''"
    by (simp_all add: glob_matches_def)
  from a have "glob_glob no_directory ''/home/geo/LandsatData'' ''*band*.tif'' = []"
    by (intro enumeration_never_fails) simp
  moreover from b c have "glob_glob no_match_directory ''/home/geo/LandsatData'' ''*band*.tif'' = []"
    by (intro enumeration_never_fails) simp
  ultimately show ?thesis using a b c by blast
qed

subsection \<open>C5: a placeholder without a value\<close>




subsection \<open>C6: reading the script back\<close>

text \<open>
  C6, as stated, fails: an entry name may hold a line feed, the pattern matches it, and
  the one command rendered for it reads back as three lines.
\<close>

theorem line_feed_breaks_round_trip:
  "render_all gdalwarp_template (PInt 0, PInt 0, PInt 0, PInt 0)
       (glob_glob line_feed_band ''/home/geo/LandsatData'' ''*band*.tif'')
     = Inr [''gdalwarp -te 0 0 0 0 /home/geo/LandsatData/LC8_band\<newline>3.tif /home/geo/LandsatData/LC8_band\<newline>3_clip.tif \<newline>'']
   \<and> cell35 line_feed_band empty_world =
       (Inr (), empty_world\<lparr>files := (files empty_world)(''ClipTurkufromLandsat.sh'' \<mapsto>
          ''gdalwarp -te 0 0 0 0 /home/geo/LandsatData/LC8_band\<newline>3.tif /home/geo/LandsatData/LC8_band\<newline>3_clip.tif \<newline>'')\<rparr>)
   \<and> readlines ''gdalwarp -te 0 0 0 0 /home/geo/LandsatData/LC8_band\<newline>3.tif /home/geo/LandsatData/LC8_band\<newline>3_clip.tif \<newline>''
       = [''gdalwarp -te 0 0 0 0 /home/geo/LandsatData/LC8_band\<newline>'',
          ''3.tif /home/geo/LandsatData/LC8_band\<newline>'',
          ''3_clip.tif \<newline>'']
   \<and> readlines ''gdalwarp -te 0 0 0 0 /home/geo/LandsatData/LC8_band\<newline>3.tif /home/geo/LandsatData/LC8_band\<newline>3_clip.tif \<newline>''
       \<noteq> [''gdalwarp -te 0 0 0 0 /home/geo/LandsatData/LC8_band\<newline>3.tif /home/geo/LandsatData/LC8_band\<newline>3_clip.tif \<newline>'']"
proof -
  have r: "render_all gdalwarp_template (PInt 0, PInt 0, PInt 0, PInt 0)
       (glob_glob line_feed_band ''/home/geo/LandsatData'' ''*band*.tif'')
     = Inr [''gdalwarp -te 0 0 0 0 /home/geo/LandsatData/LC8_band\<newline>3.tif /home/geo/LandsatData/LC8_band\<newline>3_clip.tif \<newline>'']"
    by (simp add: glob_line_feed renderCommand_gdalwarp deriveOutputPath_take string_of_int_def
        string_of_nat.simps)
  have l: "readlines ''gdalwarp -te 0 0 0 0 /home/geo/LandsatData/LC8_band\<newline>3.tif /home/geo/LandsatData/LC8_band\<newline>3_clip.tif \<newline>''
       = [''gdalwarp -te 0 0 0 0 /home/geo/LandsatData/LC8_band\<newline>'',
          ''3.tif /home/geo/LandsatData/LC8_band\<newline>'',
          ''3_clip.tif \<newline>'']"
    by (simp add: readlines_def)
  from r have c: "cell35 line_feed_band empty_world =
       (Inr (), empty_world\<lparr>files := (files empty_world)(''ClipTurkufromLandsat.sh'' \<mapsto>
          ''gdalwarp -te 0 0 0 0 /home/geo/LandsatData/LC8_band\<newline>3.tif /home/geo/LandsatData/LC8_band\<newline>3_clip.tif \<newline>'')\<rparr>)"
    by (simp add: cell35_def generate_render_all)
  from r l c show ?thesis by simp
qed

text \<open>
  C6, amended. When no enumerated path and no extent value contains a line feed, the
  lines read back from the written script are exactly the rendered command strings (each
  ending in a blank and a line feed), one per line, in the same order.
\<close>

theorem script_round_trip:
  assumes "\<forall>fp\<in>set (glob_glob listdir directory pattern). CHR 0x0A \<notin> set fp"
    and "CHR 0x0A \<notin> set (str xmin)" and "CHR 0x0A \<notin> set (str ymin)"
    and "CHR 0x0A \<notin> set (str xmax)" and "CHR 0x0A \<notin> set (str ymax)"
  shows "\<exists>lines.
     render_all gdalwarp_template (xmin, ymin, xmax, ymax) (glob_glob listdir directory pattern) = Inr lines
     \<and> generate listdir directory pattern (xmin, ymin, xmax, ymax) gdalwarp_template cmd_file w =
         (Inr (), w\<lparr>files := (files w)(cmd_file \<mapsto> concat lines)\<rparr>)
     \<and> readlines (concat lines) = lines"
proof -
  let ?line = "\<lambda>fp. ''gdalwarp -te '' @ str xmin @ '' '' @ str ymin @ '' '' @ str xmax @ '' ''
                 @ str ymax @ '' '' @ fp @ '' '' @ deriveOutputPath fp @ '' \<newline>''"
  let ?FileList = "glob_glob listdir directory pattern"
  let ?lines = "map ?line ?FileList"
  have r: "render_all gdalwarp_template (xmin, ymin, xmax, ymax) ?FileList = Inr ?lines"
    by (rule render_all_gdalwarp)
  then have g: "generate listdir directory pattern (xmin, ymin, xmax, ymax) gdalwarp_template cmd_file w =
         (Inr (), w\<lparr>files := (files w)(cmd_file \<mapsto> concat ?lines)\<rparr>)"
    by (simp add: generate_render_all)
  have "\<forall>l\<in>set ?lines. \<exists>body. l = body @ [CHR 0x0A] \<and> CHR 0x0A \<notin> set body"
  proof
    fix l assume "l \<in> set ?lines"
    then obtain fp where fp: "fp \<in> set ?FileList" and l: "l = ?line fp" by auto
    from fp assms(1) have nf: "CHR 0x0A \<notin> set fp" by blast
    then have nd: "CHR 0x0A \<notin> set (deriveOutputPath fp)" by (rule set_deriveOutputPath)
    let ?body = "''gdalwarp -te '' @ str xmin @ '' '' @ str ymin @ '' '' @ str xmax @ '' ''
                 @ str ymax @ '' '' @ fp @ '' '' @ deriveOutputPath fp @ '' ''"
    from l have "l = ?body @ [CHR 0x0A]" by simp
    moreover from nf nd assms(2-5) have "CHR 0x0A \<notin> set ?body" by simp
    ultimately show "\<exists>body. l = body @ [CHR 0x0A] \<and> CHR 0x0A \<notin> set body" by blast
  qed
  then have "readlines (concat ?lines) = ?lines" by (rule readlines_concat)
  with r g show ?thesis by blast
qed

theorem script_round_trip_witness:
  "glob_glob three_bands ''/home/geo/LandsatData'' ''*band*.tif'' =
     [''/home/geo/LandsatData/band3.tif'', ''/home/geo/LandsatData/band4.tif'',
      ''/home/geo/LandsatData/band5.tif'']
   \<and> CHR 0x0A \<notin> set ''/home/geo/LandsatData/band3.tif''
   \<and> CHR 0x0A \<notin> set ''/home/geo/LandsatData/band4.tif''
   \<and> CHR 0x0A \<notin> set ''/home/geo/LandsatData/band5.tif''
   \<and> CHR 0x0A \<notin> set (str (PInt 0))
   \<and> (\<exists>lines.
     render_all gdalwarp_template (PInt 0, PInt 0, PInt 0, PInt 0)
        (glob_glob three_bands ''/home/geo/LandsatData'' ''*band*.tif'') = Inr lines
     \<and> cell35 three_bands empty_world =
         (Inr (), empty_world\<lparr>files := (files empty_world)(''ClipTurkufromLandsat.sh'' \<mapsto> concat lines)\<rparr>)
     \<and> readlines (concat lines) = lines)"
proof -
  have a: "\<forall>fp\<in>set (glob_glob three_bands ''/home/geo/LandsatData'' ''*band*.tif''). CHR 0x0A \<notin> set fp"
    by (simp add: glob_three_bands)
  have b: "CHR 0x0A \<notin> set (str (PInt 0))"
    by (simp add: string_of_int_def string_of_nat.simps)
  from script_round_trip [OF a b b b b, of "''ClipTurkufromLandsat.sh''" empty_world]
  have "\<exists>lines.
     render_all gdalwarp_template (PInt 0, PInt 0, PInt 0, PInt 0)
        (glob_glob three_bands ''/home/geo/LandsatData'' ''*band*.tif'') = Inr lines
     \<and> cell35 three_bands empty_world =
         (Inr (), empty_world\<lparr>files := (files empty_world)(''ClipTurkufromLandsat.sh'' \<mapsto> concat lines)\<rparr>)
     \<and> readlines (concat lines) = lines"
    by (simp add: cell35_def)
  with b show ?thesis by (simp add: glob_three_bands)
qed

subsection \<open>C7: nothing matches\<close>

text \<open>
  C7. When the pattern matches no file, the run succeeds and writes a script with no
  command: the empty file, which reads back as no line.
\<close>

theorem no_match_empty_script:
  "glob_glob listdir directory pattern = [] \<Longrightarrow>
   generate listdir directory pattern ext template cmd_file w =
     (Inr (), w\<lparr>files := (files w)(cmd_file \<mapsto> [])\<rparr>)
   \<and> readlines [] = []"
  by (simp add: generate_render_all readlines_def)

theorem no_match_empty_script_witness:
  "glob_glob no_match_directory ''/home/geo/LandsatData'' ''*band*.tif'' = []
   \<and> cell35 no_match_directory empty_world =
       (Inr (), empty_world\<lparr>files := (files empty_world)(''ClipTurkufromLandsat.sh'' \<mapsto> [])\<rparr>)"
  using no_match_empty_script [OF glob_no_match, of "(PInt 0, PInt 0, PInt 0, PInt 0)" gdalwarp_template
              "''ClipTurkufromLandsat.sh''" empty_world]
  by (simp add: glob_no_match cell35_def)

subsection \<open>C8: the frame of a run\<close>

text \<open>
  C8. A run hands no command to \<^verbatim>\<open>os.system\<close> and fetches nothing from the network;
  the world after the run is the world before it, or differs from it in the contents of
  the script file alone. (The stacking cell, in contrast, does run its command:
  \<open>cell40_executes\<close>.)
\<close>

theorem generate_only_writes_script:
  "executed (snd (generate listdir directory pattern ext template cmd_file w)) = executed w
   \<and> fetched (snd (generate listdir directory pattern ext template cmd_file w)) = fetched w
   \<and> (snd (generate listdir directory pattern ext template cmd_file w) = w
      \<or> (\<exists>command. snd (generate listdir directory pattern ext template cmd_file w)
            = w\<lparr>files := (files w)(cmd_file \<mapsto> command)\<rparr>))"
  by (auto simp: generate_render_all split: sum.splits)

theorem generate_only_writes_script_witness:
  "executed (snd (cell35 three_bands empty_world)) = []
   \<and> fetched (snd (cell35 three_bands empty_world)) = []"
  using generate_only_writes_script [of three_bands "''/home/geo/LandsatData''" "''*band*.tif''"
      "(PInt 0, PInt 0, PInt 0, PInt 0)" gdalwarp_template "''ClipTurkufromLandsat.sh''" empty_world]
  by (simp add: cell35_def empty_world_def)

subsection \<open>C9: one command line per enumerated file\<close>

text \<open>
  C9, as stated, fails: of two entries whose names \<^verbatim>\<open>fnmatch\<close> matches against the
  pattern, the one that starts with a dot is not enumerated, and the command of the
  other, whose name holds a line feed, takes three lines of the script.
\<close>

theorem hidden_and_line_feed_counts:
  "hidden_and_line_feed ''/home/geo/LandsatData'' = Some [''.LC8_band5.tif'', ''LC8_band\<newline>3.tif'']
   \<and> fnmatch ''.LC8_band5.tif'' ''*band*.tif''
   \<and> fnmatch ''LC8_band\<newline>3.tif'' ''*band*.tif''
   \<and> glob_glob hidden_and_line_feed ''/home/geo/LandsatData'' ''*band*.tif''
       = [''/home/geo/LandsatData/LC8_band\<newline>3.tif'']
   \<and> cell35 hidden_and_line_feed empty_world =
       (Inr (), empty_world\<lparr>files := (files empty_world)(''ClipTurkufromLandsat.sh'' \<mapsto>
          ''gdalwarp -te 0 0 0 0 /home/geo/LandsatData/LC8_band\<newline>3.tif /home/geo/LandsatData/LC8_band\<newline>3_clip.tif \<newline>'')\<rparr>)
   \<and> length (readlines ''gdalwarp -te 0 0 0 0 /home/geo/LandsatData/LC8_band\<newline>3.tif /home/geo/LandsatData/LC8_band\<newline>3_clip.tif \<newline>'') = 3"
proof -
  have a: "hidden_and_line_feed ''/home/geo/LandsatData'' = Some [''.LC8_band5.tif'', ''LC8_band\<newline>3.tif'']"
    by (simp add: hidden_and_line_feed_def)
  have b: "fnmatch ''.LC8_band5.tif'' ''*band*.tif''" "fnmatch ''LC8_band\<newline>3.tif'' ''*band*.tif''"
    by simp_all
  have c: "cell35 hidden_and_line_feed empty_world =
       (Inr (), empty_world\<lparr>files := (files empty_world)(''ClipTurkufromLandsat.sh'' \<mapsto>
          ''gdalwarp -te 0 0 0 0 /home/geo/LandsatData/LC8_band\<newline>3.tif /home/geo/LandsatData/LC8_band\<newline>3_clip.tif \<newline>'')\<rparr>)"
    by (simp add: cell35_def generate_render_all glob_hidden_and_line_feed renderCommand_gdalwarp
        deriveOutputPath_take string_of_int_def string_of_nat.simps)
  have d: "length (readlines ''gdalwarp -te 0 0 0 0 /home/geo/LandsatData/LC8_band\<newline>3.tif /home/geo/LandsatData/LC8_band\<newline>3_clip.tif \<newline>'') = 3"
    by (simp add: readlines_def)
  from a b c d show ?thesis by (simp add: glob_hidden_and_line_feed)
qed

text \<open>
  C9, amended. For a directory with the entries \<open>names\<close> the cell enumerates exactly the
  entries that do not start with a dot and whose names have the form
  \<^verbatim>\<open>...band....tif\<close>, each joined to the directory name, in the order of the listing.
  When no enumerated path and no extent value contains a line feed, the script has
  exactly one line per enumerated path: its lines, in order, are the commands of the
  enumerated paths.
\<close>

theorem one_line_per_enumerated_file:
  assumes "listdir directory = Some names"
    and "\<forall>fp\<in>set (glob_glob listdir directory ''*band*.tif''). CHR 0x0A \<notin> set fp"
    and "CHR 0x0A \<notin> set (str xmin)" and "CHR 0x0A \<notin> set (str ymin)"
    and "CHR 0x0A \<notin> set (str xmax)" and "CHR 0x0A \<notin> set (str ymax)"
  shows "glob_glob listdir directory ''*band*.tif'' =
       map (os_path_join directory)
         (filter (\<lambda>n. \<not> ishidden n \<and> (\<exists>a c. n = a @ ''band'' @ c @ ''.tif'')) names)
     \<and> (\<exists>script.
          generate listdir directory ''*band*.tif'' (xmin, ymin, xmax, ymax) gdalwarp_template cmd_file w
            = (Inr (), w\<lparr>files := (files w)(cmd_file \<mapsto> script)\<rparr>)
          \<and> length (readlines script) = length (glob_glob listdir directory ''*band*.tif'')
          \<and> readlines script =
              map (\<lambda>fp. ''gdalwarp -te '' @ str xmin @ '' '' @ str ymin @ '' '' @ str xmax @ '' ''
                         @ str ymax @ '' '' @ fp @ '' '' @ deriveOutputPath fp @ '' \<newline>'')
                (glob_glob listdir directory ''*band*.tif''))"
proof -
  let ?FileList = "glob_glob listdir directory ''*band*.tif''"
  let ?lines = "map (\<lambda>fp. ''gdalwarp -te '' @ str xmin @ '' '' @ str ymin @ '' '' @ str xmax @ '' ''
                         @ str ymax @ '' '' @ fp @ '' '' @ deriveOutputPath fp @ '' \<newline>'') ?FileList"
  have g: "generate listdir directory ''*band*.tif'' (xmin, ymin, xmax, ymax) gdalwarp_template cmd_file w
            = (Inr (), w\<lparr>files := (files w)(cmd_file \<mapsto> concat ?lines)\<rparr>)"
    by (simp add: generate_render_all render_all_gdalwarp)
  from assms(2-6) have rl: "readlines (concat ?lines) = ?lines"
    by (rule readlines_gdalwarp)
  then have "length (readlines (concat ?lines)) = length ?FileList" by simp
  with g rl have "\<exists>script.
          generate listdir directory ''*band*.tif'' (xmin, ymin, xmax, ymax) gdalwarp_template cmd_file w
            = (Inr (), w\<lparr>files := (files w)(cmd_file \<mapsto> script)\<rparr>)
          \<and> length (readlines script) = length ?FileList
          \<and> readlines script = ?lines"
    by blast
  moreover from assms(1) have "?FileList =
       map (os_path_join directory)
         (filter (\<lambda>n. \<not> ishidden n \<and> (\<exists>a c. n = a @ ''band'' @ c @ ''.tif'')) names)"
    by (rule glob_glob_band_tif_filter [of listdir directory names])
  ultimately show ?thesis by blast
qed

theorem one_line_per_enumerated_file_witness:
  "mixed_directory ''/home/geo/LandsatData''
     = Some [''readme.txt'', ''LC8_band4.tif'', ''.LC8_band5.tif'', ''LC8_band3.tif'']
   \<and> glob_glob mixed_directory ''/home/geo/LandsatData'' ''*band*.tif''
       = [''/home/geo/LandsatData/LC8_band4.tif'', ''/home/geo/LandsatData/LC8_band3.tif'']
   \<and> CHR 0x0A \<notin> set ''/home/geo/LandsatData/LC8_band4.tif''
   \<and> CHR 0x0A \<notin> set ''/home/geo/LandsatData/LC8_band3.tif''
   \<and> CHR 0x0A \<notin> set (str (PInt 0))
   \<and> (\<exists>script.
        cell35 mixed_directory empty_world
          = (Inr (), empty_world\<lparr>files := (files empty_world)(''ClipTurkufromLandsat.sh'' \<mapsto> script)\<rparr>)
        \<and> length (readlines script) = 2
        \<and> readlines script =
            [''gdalwarp -te 0 0 0 0 /home/geo/LandsatData/LC8_band4.tif /home/geo/LandsatData/LC8_band4_clip.tif \<newline>'',
             ''gdalwarp -te 0 0 0 0 /home/geo/LandsatData/LC8_band3.tif /home/geo/LandsatData/LC8_band3_clip.tif \<newline>''])"
proof -
  have a: "mixed_directory ''/home/geo/LandsatData''
     = Some [''readme.txt'', ''LC8_band4.tif'', ''.LC8_band5.tif'', ''LC8_band3.tif'']"
    by (simp add: mixed_directory_def)
  have b: "\<forall>fp\<in>set (glob_glob mixed_directory ''/home/geo/LandsatData'' ''*band*.tif''). CHR 0x0A \<notin> set fp"
    by (simp add: glob_mixed)
  have c: "CHR 0x0A \<notin> set (str (PInt 0))"
    by (simp add: string_of_int_def string_of_nat.simps)
  from one_line_per_enumerated_file [OF a b c c c c, of "''ClipTurkufromLandsat.sh''" empty_world, THEN conjunct2]
  have "\<exists>script.
        cell35 mixed_directory empty_world
          = (Inr (), empty_world\<lparr>files := (files empty_world)(''ClipTurkufromLandsat.sh'' \<mapsto> script)\<rparr>)
        \<and> length (readlines script) = 2
        \<and> readlines script =
            [''gdalwarp -te 0 0 0 0 /home/geo/LandsatData/LC8_band4.tif /home/geo/LandsatData/LC8_band4_clip.tif \<newline>'',
             ''gdalwarp -te 0 0 0 0 /home/geo/LandsatData/LC8_band3.tif /home/geo/LandsatData/LC8_band3_clip.tif \<newline>'']"
    by (simp add: cell35_def glob_mixed deriveOutputPath_take string_of_int_def string_of_nat.simps
        numeral_2_eq_2)
  with a c show ?thesis by (simp add: glob_mixed)
qed

subsection \<open>C10: what the derivation computes\<close>

text \<open>
  C10. For every input path \<open>p\<close> the derived output path is \<open>p\<close> without its last four
  characters, followed by \<^verbatim>\<open>_clip.tif\<close>, whatever the extension of \<open>p\<close> is. So two
  paths that agree on all but their last four characters derive the same output path,
  and a path of at most four characters derives exactly \<^verbatim>\<open>_clip.tif\<close>.
\<close>

theorem deriveOutputPath_drops_last_four:
  "deriveOutputPath p = rev (drop 4 (rev p)) @ ''_clip.tif''
   \<and> (rev (drop 4 (rev p)) = rev (drop 4 (rev q)) \<longrightarrow> deriveOutputPath p = deriveOutputPath q)
   \<and> (length p \<le> 4 \<longrightarrow> deriveOutputPath p = ''_clip.tif'')"
  by (simp add: deriveOutputPath_take rev_drop)

theorem deriveOutputPath_drops_last_four_witness:
  "deriveOutputPath ''band3.tif'' = ''band3_clip.tif''
   \<and> deriveOutputPath ''band3.img'' = deriveOutputPath ''band3.tif''
   \<and> deriveOutputPath ''.tif'' = ''_clip.tif''"
  using deriveOutputPath_drops_last_four [of "''band3.tif''" "''band3.img''"]
        deriveOutputPath_drops_last_four [of "''band3.img''" "''band3.tif''"]
        deriveOutputPath_drops_last_four [of "''.tif''" "''''"]
  by simp

end
